theory Spec2Isabelle
  imports Main "HOL-Library.Word"
begin

section \<open>JavaScript values\<close>

text \<open>
  A JavaScript string is a sequence of 16-bit code units. ASCII literals of the source are
  written \<open>asc ''...''\<close>; other characters are given by their UTF-16 code units.
\<close>

type_synonym code_unit = "16 word"
type_synonym jsstring = "code_unit list"

definition asc :: "string \<Rightarrow> jsstring" where
  "asc s = map of_char s"

text \<open>
  The values that the program passes around: what \<open>JSON.parse\<close> produces from a response
  body, plus \<open>undefined\<close>. An object is the list of its properties in source order; a later
  binding of a key overrides an earlier one.

  A number is a double. The program never computes with one: it tests numbers for
  truthiness and prints them. A number is therefore given by its canonical decimal form,
  the string that \<open>Number.prototype.toString\<close> returns for it: \<open>10\<close>, \<open>0.5\<close>, \<open>-3\<close>, \<open>1e+21\<close>,
  \<open>NaN\<close>; both zeros print as \<open>0\<close>. A string that is no such form stands for no number; what
  is proved for all values holds for those as well.
\<close>

datatype jsval =
    JUndefined
  | JNull
  | JBool bool
  | JNum jsstring
  | JStr jsstring
  | JArr "jsval list"
  | JObj "(jsstring \<times> jsval) list"

text \<open>Errors raised by the language itself, and thrown \<open>Error\<close> objects with their message.\<close>

datatype engine_error = TypeError | SyntaxError

datatype js_error = Error jsstring

fun err_msg :: "js_error \<Rightarrow> jsstring" where
  "err_msg (Error m) = m"

text \<open>
  \<open>ToBoolean\<close>: the falsy values are \<open>undefined\<close>, \<open>null\<close>, \<open>false\<close>, the zeros, \<open>NaN\<close> and
  \<open>""\<close>.
\<close>

fun truthy :: "jsval \<Rightarrow> bool" where
  "truthy JUndefined = False"
| "truthy JNull = False"
| "truthy (JBool b) = b"
| "truthy (JNum n) = (n \<noteq> asc ''0'' \<and> n \<noteq> asc ''NaN'')"
| "truthy (JStr s) = (s \<noteq> [])"
| "truthy (JArr xs) = True"
| "truthy (JObj kvs) = True"

text \<open>The operator \<open>a || b\<close>: the left operand when it is truthy, else the right one.\<close>

definition js_or :: "jsval \<Rightarrow> jsval \<Rightarrow> jsval" where
  "js_or a b = (if truthy a then a else b)"

text \<open>The decimal digits of a natural number.\<close>

fun dec :: "nat \<Rightarrow> jsstring" where
  "dec n = (if n < 10 then [of_nat (48 + n)]
            else dec (n div 10) @ [of_nat (48 + n mod 10)])"

declare dec.simps [simp del]

fun join_comma :: "jsstring list \<Rightarrow> jsstring" where
  "join_comma [] = []"
| "join_comma [s] = s"
| "join_comma (s # t # ss) = s @ asc '','' @ join_comma (t # ss)"

text \<open>
  \<open>ToString\<close>, which a template literal applies to each interpolated value. A number
  prints its canonical decimal form. An array prints its elements separated by commas,
  \<open>null\<close> and \<open>undefined\<close> elements as the empty string; a plain object prints as
  \<open>[object Object]\<close>.
\<close>

fun to_string :: "jsval \<Rightarrow> jsstring" where
  "to_string JUndefined = asc ''undefined''"
| "to_string JNull = asc ''null''"
| "to_string (JBool b) = (if b then asc ''true'' else asc ''false'')"
| "to_string (JNum n) = n"
| "to_string (JStr s) = s"
| "to_string (JArr xs) =
     join_comma (map (\<lambda>x. if x = JUndefined \<or> x = JNull then [] else to_string x) xs)"
| "to_string (JObj kvs) = asc ''[object Object]''"

text \<open>
  Property access. \<open>js_prop v k\<close> reads the own property \<open>k\<close> of an object and is
  \<open>undefined\<close> for a missing key and for a primitive or an array (none of the keys this
  program reads is a built-in property of those). \<open>opt_prop\<close> is \<open>v?.k\<close>; \<open>member\<close> is
  \<open>v.k\<close>, which raises a TypeError on \<open>null\<close> and \<open>undefined\<close>.
\<close>

fun js_prop :: "jsval \<Rightarrow> jsstring \<Rightarrow> jsval" where
  "js_prop (JObj kvs) k = (case map_of (rev kvs) k of Some v \<Rightarrow> v | None \<Rightarrow> JUndefined)"
| "js_prop v k = JUndefined"

definition nullish :: "jsval \<Rightarrow> bool" where
  "nullish v = (v = JUndefined \<or> v = JNull)"

definition opt_prop :: "jsval \<Rightarrow> jsstring \<Rightarrow> jsval" where
  "opt_prop v k = (if nullish v then JUndefined else js_prop v k)"

definition member :: "jsval \<Rightarrow> jsstring \<Rightarrow> engine_error + jsval" where
  "member v k = (if nullish v then Inl TypeError else Inr (js_prop v k))"

text \<open>A parameter with a default value takes the default exactly when the argument is \<open>undefined\<close>.\<close>

definition default_param :: "jsval \<Rightarrow> jsval \<Rightarrow> jsval" where
  "default_param arg d = (if arg = JUndefined then d else arg)"

section \<open>The HTTP client (services/api.js)\<close>

text \<open>
  The backend and the network are the environment: a function from the request that is sent
  to what axios settles the call with, either a response or a rejection. The rejection
  carries the fields the response interceptor reads: \<open>message\<close>, \<open>response\<close> (present when
  the server answered) and \<open>request\<close> (truthy when the request was sent). Every
  operation returns its result together with the list of the requests it issued, in order.
  The status of a response is the \<open>status\<close> of the underlying \<open>XMLHttpRequest\<close>, an
  unsigned 16-bit integer. Console logging is not part of the model.
\<close>

datatype http_method = GET | POST

record request =
  req_method :: http_method
  req_url :: jsstring
  req_body :: jsval

record response =
  status :: "16 word"
  data :: jsval

record axios_error =
  err_message :: jsstring
  err_response :: "response option"
  err_request :: bool

datatype outcome = Fulfilled response | Rejected axios_error

type_synonym network = "request \<Rightarrow> outcome"

type_synonym 'a io = "'a \<times> request list"

definition network_advice :: jsstring where
  "network_advice = asc ''Network Error: Unable to connect to the API server. Make sure the backend is running on http://localhost:8000''"

text \<open>The error handler of \<open>api.interceptors.response\<close>: every branch throws.\<close>

definition response_error_handler :: "axios_error \<Rightarrow> js_error" where
  "response_error_handler error =
     (case err_response error of
        Some r \<Rightarrow>
          (let message = js_or (js_or (opt_prop (data r) (asc ''detail''))
                                      (opt_prop (data r) (asc ''message'')))
                               (JStr (err_message error))
           in Error (asc ''API Error ('' @ dec (unat (status r)) @ asc ''): '' @ to_string message))
      | None \<Rightarrow>
          (if err_request error then Error network_advice
           else Error (asc ''Request Error: '' @ err_message error)))"

text \<open>
  A call through the \<open>api\<close> instance: the request interceptor returns the configuration as it
  is, the response interceptor returns a response as it is and normalises a rejection.
\<close>

definition api_call :: "network \<Rightarrow> request \<Rightarrow> (js_error + response) io" where
  "api_call net req =
     (case net req of
        Fulfilled r \<Rightarrow> (Inr r, [req])
      | Rejected e \<Rightarrow> (Inl (response_error_handler e), [req]))"

definition api_get :: "network \<Rightarrow> jsstring \<Rightarrow> (js_error + response) io" where
  "api_get net url = api_call net \<lparr>req_method = GET, req_url = url, req_body = JUndefined\<rparr>"

definition api_post :: "network \<Rightarrow> jsstring \<Rightarrow> jsval \<Rightarrow> (js_error + response) io" where
  "api_post net url body = api_call net \<lparr>req_method = POST, req_url = url, req_body = body\<rparr>"

text \<open>The catalog entries that \<open>getSupportedLanguages\<close> falls back to.\<close>

definition lang_entry :: "jsstring \<Rightarrow> jsstring \<Rightarrow> jsstring \<Rightarrow> jsstring \<Rightarrow> jsstring \<Rightarrow> jsval" where
  "lang_entry c n nn f d =
     JObj [(asc ''code'', JStr c), (asc ''name'', JStr n), (asc ''native_name'', JStr nn),
           (asc ''flag'', JStr f), (asc ''display'', JStr d)]"

definition fallback_languages :: "jsval list" where
  "fallback_languages =
   [lang_entry (asc ''en'') (asc ''English'')
     (asc ''English'')
     ([0xD83C, 0xDDFA, 0xD83C, 0xDDF8])
     ([0xD83C, 0xDDFA, 0xD83C, 0xDDF8] @ asc '' English''),
    lang_entry (asc ''es'') (asc ''Spanish'')
     (asc ''Espa'' @ [0x00F1] @ asc ''ol'')
     ([0xD83C, 0xDDEA, 0xD83C, 0xDDF8])
     ([0xD83C, 0xDDEA, 0xD83C, 0xDDF8] @ asc '' Espa'' @ [0x00F1] @ asc ''ol''),
    lang_entry (asc ''fr'') (asc ''French'')
     (asc ''Fran'' @ [0x00E7] @ asc ''ais'')
     ([0xD83C, 0xDDEB, 0xD83C, 0xDDF7])
     ([0xD83C, 0xDDEB, 0xD83C, 0xDDF7] @ asc '' Fran'' @ [0x00E7] @ asc ''ais''),
    lang_entry (asc ''de'') (asc ''German'')
     (asc ''Deutsch'')
     ([0xD83C, 0xDDE9, 0xD83C, 0xDDEA])
     ([0xD83C, 0xDDE9, 0xD83C, 0xDDEA] @ asc '' Deutsch''),
    lang_entry (asc ''it'') (asc ''Italian'')
     (asc ''Italiano'')
     ([0xD83C, 0xDDEE, 0xD83C, 0xDDF9])
     ([0xD83C, 0xDDEE, 0xD83C, 0xDDF9] @ asc '' Italiano''),
    lang_entry (asc ''ja'') (asc ''Japanese'')
     ([0x65E5, 0x672C, 0x8A9E])
     ([0xD83C, 0xDDEF, 0xD83C, 0xDDF5])
     ([0xD83C, 0xDDEF, 0xD83C, 0xDDF5] @ asc '' '' @ [0x65E5, 0x672C, 0x8A9E]),
    lang_entry (asc ''ko'') (asc ''Korean'')
     ([0xD55C, 0xAD6D, 0xC5B4])
     ([0xD83C, 0xDDF0, 0xD83C, 0xDDF7])
     ([0xD83C, 0xDDF0, 0xD83C, 0xDDF7] @ asc '' '' @ [0xD55C, 0xAD6D, 0xC5B4]),
    lang_entry (asc ''zh'') (asc ''Chinese'')
     ([0x4E2D, 0x6587])
     ([0xD83C, 0xDDE8, 0xD83C, 0xDDF3])
     ([0xD83C, 0xDDE8, 0xD83C, 0xDDF3] @ asc '' '' @ [0x4E2D, 0x6587]),
    lang_entry (asc ''hi'') (asc ''Hindi'')
     ([0x0939, 0x093F, 0x0928, 0x094D, 0x0926, 0x0940])
     ([0xD83C, 0xDDEE, 0xD83C, 0xDDF3])
     ([0xD83C, 0xDDEE, 0xD83C, 0xDDF3] @ asc '' '' @ [0x0939, 0x093F, 0x0928, 0x094D, 0x0926, 0x0940]),
    lang_entry (asc ''ar'') (asc ''Arabic'')
     ([0x0627, 0x0644, 0x0639, 0x0631, 0x0628, 0x064A, 0x0629])
     ([0xD83C, 0xDDF8, 0xD83C, 0xDDE6])
     ([0xD83C, 0xDDF8, 0xD83C, 0xDDE6] @ asc '' '' @ [0x0627, 0x0644, 0x0639, 0x0631, 0x0628, 0x064A, 0x0629])]"

definition fallback_catalog :: jsval where
  "fallback_catalog =
     JObj [(asc ''languages'', JArr fallback_languages), (asc ''total_languages'', JNum (asc ''10''))]"

text \<open>\<open>getSupportedLanguages\<close>: the catch block returns the fallback for whatever was thrown.\<close>

definition getSupportedLanguages :: "network \<Rightarrow> (js_error + jsval) io" where
  "getSupportedLanguages net =
     (case api_get net (asc ''/api/languages'') of
        (Inr response, tr) \<Rightarrow> (Inr (data response), tr)
      | (Inl error, tr) \<Rightarrow> (Inr fallback_catalog, tr))"

text \<open>\<open>analyzeVideoAdvanced\<close>: the catch block logs and rethrows the error it caught.\<close>

definition analyzeVideoAdvanced :: "network \<Rightarrow> jsval \<Rightarrow> jsval \<Rightarrow> jsval \<Rightarrow> (js_error + jsval) io" where
  "analyzeVideoAdvanced net url outputLanguage0 videoLanguageHint0 =
     (let outputLanguage = default_param outputLanguage0 (JStr (asc ''en''));
          videoLanguageHint = default_param videoLanguageHint0 JNull
      in case api_post net (asc ''/api/advanced-summary'')
                (JObj [(asc ''url'', url),
                       (asc ''output_language'', outputLanguage),
                       (asc ''auto_detect_video_language'', JBool True),
                       (asc ''video_language_hint'', videoLanguageHint)]) of
           (Inr response, tr) \<Rightarrow> (Inr (data response), tr)
         | (Inl error, tr) \<Rightarrow> (Inl error, tr))"

definition queryTranscriptAdvanced ::
    "network \<Rightarrow> jsval \<Rightarrow> jsval \<Rightarrow> jsval \<Rightarrow> jsval \<Rightarrow> (js_error + jsval) io" where
  "queryTranscriptAdvanced net transcript query outputLanguage0 queryLanguage0 =
     (let outputLanguage = default_param outputLanguage0 (JStr (asc ''en''));
          queryLanguage = default_param queryLanguage0 JNull
      in case api_post net (asc ''/api/advanced-query'')
                (JObj [(asc ''transcript'', transcript),
                       (asc ''query'', query),
                       (asc ''output_language'', outputLanguage),
                       (asc ''query_language'', queryLanguage)]) of
           (Inr response, tr) \<Rightarrow> (Inr (data response), tr)
         | (Inl error, tr) \<Rightarrow> (Inl error, tr))"

text \<open>
  The backward-compatibility functions pass two, respectively three, arguments on, so the
  last parameter of the advanced operation is \<open>undefined\<close> at the call.
\<close>

definition analyzeVideo :: "network \<Rightarrow> jsval \<Rightarrow> jsval \<Rightarrow> (js_error + jsval) io" where
  "analyzeVideo net url language0 =
     (let language = default_param language0 (JStr (asc ''en''))
      in analyzeVideoAdvanced net url language JUndefined)"

definition queryTranscript :: "network \<Rightarrow> jsval \<Rightarrow> jsval \<Rightarrow> jsval \<Rightarrow> (js_error + jsval) io" where
  "queryTranscript net transcript query language0 =
     (let language = default_param language0 (JStr (asc ''en''))
      in queryTranscriptAdvanced net transcript query language JUndefined)"

definition checkApiHealth :: "network \<Rightarrow> (js_error + bool) io" where
  "checkApiHealth net =
     (case api_get net (asc ''/health'') of
        (Inr response, tr) \<Rightarrow> (Inr (status response = 200), tr)
      | (Inl error, tr) \<Rightarrow> (Inr False, tr))"

section \<open>Regular expressions of the program\<close>

text \<open>
  Every regular expression the program builds or could be handed within the fragment
  modelled here matches a fixed-length sequence of single code units: a given character,
  the wildcard \<open>.\<close> (any code unit but a line terminator) or the identifier class
  \<open>[0-9A-Za-z_-]\<close>. With the flag \<open>i\<close> two code units match when they have the same
  canonical form; for ASCII that is the upper-case letter, and a code unit outside ASCII
  never matches an ASCII one.
\<close>

datatype atom = Chr code_unit | AnyChar | IdClass

definition id_char :: "code_unit \<Rightarrow> bool" where
  "id_char c = ((0x30 \<le> c \<and> c \<le> 0x39) \<or> (0x41 \<le> c \<and> c \<le> 0x5A) \<or>
                (0x61 \<le> c \<and> c \<le> 0x7A) \<or> c = 0x5F \<or> c = 0x2D)"

definition line_terminator :: "code_unit \<Rightarrow> bool" where
  "line_terminator c = (c = 0x0A \<or> c = 0x0D \<or> c = 0x2028 \<or> c = 0x2029)"

definition canonicalize :: "code_unit \<Rightarrow> code_unit" where
  "canonicalize c = (if 0x61 \<le> c \<and> c \<le> 0x7A then c - 0x20 else c)"

fun atom_matches :: "bool \<Rightarrow> atom \<Rightarrow> code_unit \<Rightarrow> bool" where
  "atom_matches ic (Chr a) c = (if ic then canonicalize a = canonicalize c else a = c)"
| "atom_matches ic AnyChar c = (\<not> line_terminator c)"
| "atom_matches ic IdClass c = id_char c"

fun match_here :: "bool \<Rightarrow> atom list \<Rightarrow> jsstring \<Rightarrow> bool" where
  "match_here ic [] s = True"
| "match_here ic (a # as) [] = False"
| "match_here ic (a # as) (c # cs) = (atom_matches ic a c \<and> match_here ic as cs)"

text \<open>\<open>RegExp.prototype.test\<close> without the flag \<open>g\<close>: a match at some position.\<close>

fun re_test :: "bool \<Rightarrow> atom list \<Rightarrow> jsstring \<Rightarrow> bool" where
  "re_test ic p [] = match_here ic p []"
| "re_test ic p (c # cs) = (match_here ic p (c # cs) \<or> re_test ic p cs)"

text \<open>
  \<open>String.prototype.trim\<close> removes white space and line terminators from both ends.
\<close>

definition white_space :: "code_unit \<Rightarrow> bool" where
  "white_space c =
     ((0x09 \<le> c \<and> c \<le> 0x0D) \<or> c = 0x20 \<or> c = 0xA0 \<or> c = 0x1680 \<or>
      (0x2000 \<le> c \<and> c \<le> 0x200A) \<or> c = 0x2028 \<or> c = 0x2029 \<or> c = 0x202F \<or>
      c = 0x205F \<or> c = 0x3000 \<or> c = 0xFEFF)"

definition trim :: "jsstring \<Rightarrow> jsstring" where
  "trim s = rev (dropWhile white_space (rev (dropWhile white_space s)))"

section \<open>The analyzer form (components/VideoAnalyzer.jsx)\<close>

record analyzer_state =
  va_url :: jsstring
  va_outputLanguage :: jsstring
  va_videoLanguageHint :: jsstring
  va_supportedLanguages :: jsval
  va_isValidUrl :: bool
  va_loadingLanguages :: bool
  va_showAdvancedOptions :: bool

definition va_initial :: analyzer_state where
  "va_initial = \<lparr>va_url = [], va_outputLanguage = asc ''en'', va_videoLanguageHint = [],
     va_supportedLanguages = JArr [], va_isValidUrl = True, va_loadingLanguages = False,
     va_showAdvancedOptions = False\<rparr>"

text \<open>The effect run on mount: \<open>data.languages\<close> raises on a nullish \<open>data\<close>, which is caught.\<close>

definition loadLanguages :: "network \<Rightarrow> analyzer_state \<Rightarrow> analyzer_state io" where
  "loadLanguages net st =
     (let st1 = st\<lparr>va_loadingLanguages := True\<rparr>
      in case getSupportedLanguages net of
           (Inr d, tr) \<Rightarrow>
             (case member d (asc ''languages'') of
                Inr ls \<Rightarrow> (st1\<lparr>va_supportedLanguages := ls, va_loadingLanguages := False\<rparr>, tr)
              | Inl e \<Rightarrow> (st1\<lparr>va_loadingLanguages := False\<rparr>, tr))
         | (Inl e, tr) \<Rightarrow> (st1\<lparr>va_loadingLanguages := False\<rparr>, tr))"

definition id_pattern :: "string \<Rightarrow> atom list" where
  "id_pattern lit = map Chr (asc lit) @ replicate 11 IdClass"

definition patterns :: "atom list list" where
  "patterns =
     [id_pattern ''youtube.com/watch?v='',
      id_pattern ''youtu.be/'',
      id_pattern ''youtube.com/embed/'',
      id_pattern ''youtube.com/v/'']"

definition validateYouTubeUrl :: "jsstring \<Rightarrow> bool" where
  "validateYouTubeUrl u = list_ex (\<lambda>pattern. re_test False pattern u) patterns"

text \<open>
  \<open>handleSubmit\<close> returns the new state and, when the form is accepted, the arguments of
  the one call of \<open>onAnalyze\<close>.
\<close>

definition va_handleSubmit :: "analyzer_state \<Rightarrow> analyzer_state \<times> (jsval \<times> jsval \<times> jsval) option" where
  "va_handleSubmit st =
     (if trim (va_url st) = [] then (st\<lparr>va_isValidUrl := False\<rparr>, None)
      else if \<not> validateYouTubeUrl (va_url st) then (st\<lparr>va_isValidUrl := False\<rparr>, None)
      else (st\<lparr>va_isValidUrl := True\<rparr>,
            Some (JStr (va_url st), JStr (va_outputLanguage st),
                  js_or (JStr (va_videoLanguageHint st)) JNull)))"

definition handleUrlChange :: "jsstring \<Rightarrow> analyzer_state \<Rightarrow> analyzer_state" where
  "handleUrlChange newUrl st =
     (if newUrl \<noteq> [] \<and> \<not> validateYouTubeUrl newUrl
      then st\<lparr>va_url := newUrl, va_isValidUrl := False\<rparr>
      else st\<lparr>va_url := newUrl, va_isValidUrl := True\<rparr>)"

subsection \<open>The options of the output-language selector\<close>

text \<open>
  \<open>Array.prototype.find\<close> with the callback \<open>lang => lang.code === code\<close>: the first entry
  whose code is that string, \<open>undefined\<close> when there is none; reading \<open>code\<close> of a nullish
  entry raises.
\<close>

fun find_code :: "jsval list \<Rightarrow> jsstring \<Rightarrow> engine_error + jsval" where
  "find_code [] c = Inr JUndefined"
| "find_code (lang # ls) c =
     (case member lang (asc ''code'') of
        Inl e \<Rightarrow> Inl e
      | Inr v \<Rightarrow> if v = JStr c then Inr lang else find_code ls c)"

definition getLanguageByCode :: "jsval \<Rightarrow> jsstring \<Rightarrow> engine_error + jsval" where
  "getLanguageByCode supportedLanguages c =
     (case supportedLanguages of JArr ls \<Rightarrow> find_code ls c | _ \<Rightarrow> Inl TypeError)"

definition popularLanguages :: "jsstring list" where
  "popularLanguages = map asc [''en'', ''es'', ''fr'', ''de'', ''ja'', ''ko'', ''zh'', ''hi'', ''ar'', ''pt'']"

text \<open>\<open>popularLanguages.map(code => getLanguageByCode(code)).filter(Boolean)\<close>\<close>

fun lookup_codes :: "jsval \<Rightarrow> jsstring list \<Rightarrow> engine_error + jsval list" where
  "lookup_codes supportedLanguages [] = Inr []"
| "lookup_codes supportedLanguages (c # cs) =
     (case getLanguageByCode supportedLanguages c of
        Inl e \<Rightarrow> Inl e
      | Inr lang \<Rightarrow>
          (case lookup_codes supportedLanguages cs of
             Inl e \<Rightarrow> Inl e
           | Inr langs \<Rightarrow> Inr (lang # langs)))"

definition popularLangs :: "jsval \<Rightarrow> engine_error + jsval list" where
  "popularLangs supportedLanguages =
     (case lookup_codes supportedLanguages popularLanguages of
        Inl e \<Rightarrow> Inl e
      | Inr langs \<Rightarrow> Inr (filter truthy langs))"

text \<open>\<open>supportedLanguages.filter(lang => !popularLanguages.includes(lang.code))\<close>\<close>

fun filter_other :: "jsval list \<Rightarrow> engine_error + jsval list" where
  "filter_other [] = Inr []"
| "filter_other (lang # ls) =
     (case member lang (asc ''code'') of
        Inl e \<Rightarrow> Inl e
      | Inr v \<Rightarrow>
          (case filter_other ls of
             Inl e \<Rightarrow> Inl e
           | Inr rest \<Rightarrow>
               if list_ex (\<lambda>p. v = JStr p) popularLanguages then Inr rest
               else Inr (lang # rest)))"

definition otherLangs :: "jsval \<Rightarrow> engine_error + jsval list" where
  "otherLangs supportedLanguages =
     (case supportedLanguages of JArr ls \<Rightarrow> filter_other ls | _ \<Rightarrow> Inl TypeError)"

text \<open>An \<open>option\<close> element: its \<open>value\<close> attribute and the child it shows.\<close>

record select_option =
  opt_value :: jsval
  opt_label :: jsval

definition lang_option :: "jsval \<Rightarrow> select_option" where
  "lang_option lang =
     \<lparr>opt_value = js_prop lang (asc ''code''), opt_label = js_prop lang (asc ''display'')\<rparr>"

text \<open>
  The options rendered inside \<open>output-language-select\<close>: the popular group, then the group
  of the remaining languages. Both lists are computed on every render, before the test of
  \<open>loadingLanguages\<close>. The label is the value handed to React as the child of the option; that
  React refuses an object or an array as a child is not part of the model.
\<close>

definition output_language_options :: "analyzer_state \<Rightarrow> engine_error + select_option list" where
  "output_language_options st =
     (case popularLangs (va_supportedLanguages st) of
        Inl e \<Rightarrow> Inl e
      | Inr pop \<Rightarrow>
          (case otherLangs (va_supportedLanguages st) of
             Inl e \<Rightarrow> Inl e
           | Inr other \<Rightarrow>
               if va_loadingLanguages st
               then Inr [\<lparr>opt_value = JUndefined, opt_label = JStr (asc ''Loading languages...'')\<rparr>]
               else Inr (map lang_option pop @ map lang_option other)))"

section \<open>The results viewer (components/AnalysisResults.jsx)\<close>

datatype tab = Overview | LanguageInfo | Sentiment | Themes | Wordcloud | Transcript | Chat

record results_state =
  ar_activeTab :: tab
  ar_query :: jsstring
  ar_queryResponse :: jsval
  ar_queryLoading :: bool
  ar_searchTerm :: jsstring

definition apology_text :: jsstring where
  "apology_text = asc ''Sorry, I couldn'' @ [0x27] @ asc ''t process your question. Please try again.''"

text \<open>\<open>handleQuery\<close> of the viewer; \<open>onQuery\<close> is the callback the page passes in.\<close>

definition ar_handleQuery ::
    "(jsval \<Rightarrow> (js_error + jsval) io) \<Rightarrow> results_state \<Rightarrow> results_state io" where
  "ar_handleQuery onQuery st =
     (if trim (ar_query st) = [] then (st, [])
      else
        (let st1 = st\<lparr>ar_queryLoading := True\<rparr>
         in case onQuery (JStr (ar_query st)) of
              (Inr r, tr) \<Rightarrow> (st1\<lparr>ar_queryResponse := r, ar_queryLoading := False\<rparr>, tr)
            | (Inl e, tr) \<Rightarrow>
                (st1\<lparr>ar_queryResponse := JStr apology_text, ar_queryLoading := False\<rparr>, tr)))"

subsection \<open>Highlighting the search term\<close>

text \<open>
  \<open>new RegExp(`(${term})`, 'gi')\<close> reads the term as regular-expression syntax. The model
  covers the patterns made of ASCII characters other than \<open>^ $ \ * + ? [ ] { } |\<close>:
  ordinary characters, the wildcard \<open>.\<close> and parentheses. For such a pattern the
  constructor raises a SyntaxError exactly when the parentheses do not balance; otherwise
  the pattern is a sequence of atoms, and the first capture group, opened by the first
  \<open>(\<close>, spans the atoms read between it and its closing parenthesis.
\<close>

definition unmodelled_syntax :: "code_unit \<Rightarrow> bool" where
  "unmodelled_syntax c =
     (c \<ge> 0x80 \<or> c = 0x5E \<or> c = 0x24 \<or> c = 0x5C \<or> c = 0x2A \<or> c = 0x2B \<or> c = 0x3F \<or>
      c = 0x5B \<or> c = 0x5D \<or> c = 0x7B \<or> c = 0x7D \<or> c = 0x7C)"

text \<open>
  The first group while the pattern is read: not met yet, open (where it starts, and the
  nesting depth outside it), or closed (where it starts and ends).
\<close>

datatype group1 = NotSeen | Open nat nat | Closed nat nat

record compiled =
  re_atoms :: "atom list"
  re_group1 :: group1

fun scan_pattern :: "jsstring \<Rightarrow> nat \<Rightarrow> atom list \<Rightarrow> group1 \<Rightarrow> engine_error + compiled" where
  "scan_pattern [] depth atoms g1 =
     (if depth = 0 then Inr \<lparr>re_atoms = atoms, re_group1 = g1\<rparr> else Inl SyntaxError)"
| "scan_pattern (c # cs) depth atoms g1 =
     (if c = 0x28 then
        scan_pattern cs (Suc depth) atoms
          (if g1 = NotSeen then Open (length atoms) depth else g1)
      else if c = 0x29 then
        (if depth = 0 then Inl SyntaxError
         else scan_pattern cs (depth - 1) atoms
                (case g1 of
                   Open start d \<Rightarrow> if d = depth - 1 then Closed start (length atoms) else g1
                 | _ \<Rightarrow> g1))
      else if c = 0x2E then scan_pattern cs depth (atoms @ [AnyChar]) g1
      else scan_pattern cs depth (atoms @ [Chr c]) g1)"

definition new_RegExp :: "jsstring \<Rightarrow> (engine_error + compiled) option" where
  "new_RegExp src =
     (if list_ex unmodelled_syntax src then None else Some (scan_pattern src 0 [] NotSeen))"

text \<open>
  The replacement \<open><mark class="bg-yellow-200">$1</mark>\<close> for one match: \<open>$1\<close> stands for
  what the first group captured, and for itself in a pattern without a group.
\<close>

definition captured :: "compiled \<Rightarrow> jsstring \<Rightarrow> jsstring" where
  "captured re matched =
     (case re_group1 re of
        Closed start fin \<Rightarrow> take (fin - start) (drop start matched)
      | _ \<Rightarrow> asc ''$1'')"

definition mark :: "jsstring \<Rightarrow> jsstring" where
  "mark inner = asc ''<mark class='' @ [0x22] @ asc ''bg-yellow-200'' @ [0x22] @ asc ''>'' @ inner @ asc ''</mark>''"

text \<open>
  \<open>text.replace(regex, ...)\<close> with the flags \<open>gi\<close>: every match, found from left to right,
  is replaced; after an empty match the search moves on by one code unit.
\<close>

function replace_all :: "compiled \<Rightarrow> jsstring \<Rightarrow> jsstring" where
  "replace_all re s =
     (if match_here True (re_atoms re) s then
        mark (captured re (take (length (re_atoms re)) s)) @
          (if re_atoms re = [] then (case s of [] \<Rightarrow> [] | c # cs \<Rightarrow> c # replace_all re cs)
           else replace_all re (drop (length (re_atoms re)) s))
      else (case s of [] \<Rightarrow> [] | c # cs \<Rightarrow> c # replace_all re cs))"
  by pat_completeness auto
termination
proof (relation "measure (\<lambda>(re, s). length s)")
  show "wf (measure (\<lambda>(re :: compiled, s :: jsstring). length s))"
    by simp
next
  fix re :: compiled and s :: jsstring and c cs
  assume "s = c # cs"
  then show "((re, cs), (re, s)) \<in> measure (\<lambda>(re, s). length s)"
    by simp
next
  fix re :: compiled and s :: jsstring
  assume m: "match_here True (re_atoms re) s" and ne: "re_atoms re \<noteq> []"
  have "s \<noteq> []"
    using m ne by (cases "re_atoms re"; cases s) auto
  then show "((re, drop (length (re_atoms re)) s), (re, s)) \<in> measure (\<lambda>(re, s). length s)"
    using ne by (cases s) auto
next
  fix re :: compiled and s :: jsstring and c cs
  assume "s = c # cs"
  then show "((re, cs), (re, s)) \<in> measure (\<lambda>(re, s). length s)"
    by simp
qed

declare replace_all.simps [simp del]

text \<open>
  \<open>highlightSearchTerm\<close>: \<open>None\<close> stands for a term outside the modelled syntax, \<open>Inl\<close> for
  an error raised: by the constructor, or by calling \<open>replace\<close> on a text that is not a
  string.
\<close>

definition highlightSearchTerm :: "jsval \<Rightarrow> jsstring \<Rightarrow> (engine_error + jsval) option" where
  "highlightSearchTerm text term =
     (if term = [] then Some (Inr text)
      else case new_RegExp (asc ''('' @ term @ asc '')'') of
             None \<Rightarrow> None
           | Some (Inl e) \<Rightarrow> Some (Inl e)
           | Some (Inr regex) \<Rightarrow>
               (case text of
                  JStr t \<Rightarrow> Some (Inr (JStr (replace_all regex t)))
                | _ \<Rightarrow> Some (Inl TypeError)))"

text \<open>
  What the transcript tab hands to \<open>dangerouslySetInnerHTML\<close>:
  \<open>highlightSearchTerm(data.transcript || 'No transcript available', searchTerm)\<close>.
\<close>

definition render_transcript :: "jsval \<Rightarrow> results_state \<Rightarrow> (engine_error + jsval) option" where
  "render_transcript d st =
     highlightSearchTerm
       (js_or (js_prop d (asc ''transcript'')) (JStr (asc ''No transcript available'')))
       (ar_searchTerm st)"

section \<open>The page (App.jsx of the multilingual front end)\<close>

record app_state =
  app_analysisData :: jsval
  app_loading :: bool
  app_error :: jsval
  app_selectedLanguage :: jsval

definition app_initial :: app_state where
  "app_initial = \<lparr>app_analysisData = JNull, app_loading = False, app_error = JNull,
     app_selectedLanguage = JStr (asc ''en'')\<rparr>"

definition handleAnalyzeVideo ::
    "network \<Rightarrow> app_state \<Rightarrow> jsval \<Rightarrow> jsval \<Rightarrow> jsval \<Rightarrow> app_state io" where
  "handleAnalyzeVideo net st url outputLanguage0 videoLanguageHint0 =
     (let outputLanguage = default_param outputLanguage0 (JStr (asc ''en''));
          videoLanguageHint = default_param videoLanguageHint0 JNull;
          st1 = st\<lparr>app_loading := True, app_error := JNull, app_analysisData := JNull,
                   app_selectedLanguage := outputLanguage\<rparr>
      in case analyzeVideoAdvanced net url outputLanguage videoLanguageHint of
           (Inr d, tr) \<Rightarrow> (st1\<lparr>app_analysisData := d, app_loading := False\<rparr>, tr)
         | (Inl err, tr) \<Rightarrow>
             (st1\<lparr>app_error := js_or (JStr (err_msg err)) (JStr (asc ''Failed to analyze video'')),
                   app_loading := False\<rparr>, tr))"

definition query_failed :: js_error where
  "query_failed = Error (asc ''Failed to query transcript'')"

text \<open>
  \<open>handleQuery\<close> of the page: the guard returns \<open>null\<close>; inside the \<open>try\<close> block every error,
  also the TypeError of reading a property of a nullish value, becomes the same \<open>Error\<close>.
\<close>

definition handleQuery :: "network \<Rightarrow> app_state \<Rightarrow> jsval \<Rightarrow> (js_error + jsval) io" where
  "handleQuery net st query =
     (if \<not> truthy (opt_prop (app_analysisData st) (asc ''transcript'')) then (Inr JNull, [])
      else case member (app_analysisData st) (asc ''transcript'') of
             Inl e \<Rightarrow> (Inl query_failed, [])
           | Inr transcript \<Rightarrow>
               (case queryTranscriptAdvanced net transcript query (app_selectedLanguage st) JUndefined of
                  (Inr r, tr) \<Rightarrow>
                    (case member r (asc ''response'') of
                       Inr answer \<Rightarrow> (Inr answer, tr)
                     | Inl e \<Rightarrow> (Inl query_failed, tr))
                | (Inl err, tr) \<Rightarrow> (Inl query_failed, tr)))"

text \<open>
  The page wires \<open>onAnalyze\<close> of the form to \<open>handleAnalyzeVideo\<close> and \<open>onQuery\<close> of the viewer
  to \<open>handleQuery\<close>; the viewer is rendered only while \<open>analysisData\<close> is truthy.
\<close>

definition submit_form ::
    "network \<Rightarrow> app_state \<Rightarrow> analyzer_state \<Rightarrow> (analyzer_state \<times> app_state) io" where
  "submit_form net app va =
     (case va_handleSubmit va of
        (va', None) \<Rightarrow> ((va', app), [])
      | (va', Some (u, l, h)) \<Rightarrow>
          (case handleAnalyzeVideo net app u l h of (app', tr) \<Rightarrow> ((va', app'), tr)))"

definition submit_question :: "network \<Rightarrow> app_state \<Rightarrow> results_state \<Rightarrow> results_state io" where
  "submit_question net app ar =
     (if truthy (app_analysisData app) then ar_handleQuery (handleQuery net app) ar
      else (ar, []))"

section \<open>The single-page front end (frontend/src/App.jsx)\<close>

text \<open>This page calls \<open>axios.post\<close> directly: no interceptor, the rejection is caught as it is.\<close>

definition axios_post :: "network \<Rightarrow> jsstring \<Rightarrow> jsval \<Rightarrow> (axios_error + response) io" where
  "axios_post net url body =
     (let req = \<lparr>req_method = POST, req_url = url, req_body = body\<rparr>
      in case net req of
           Fulfilled r \<Rightarrow> (Inr r, [req])
         | Rejected e \<Rightarrow> (Inl e, [req]))"

record page_state =
  pg_inputUrl :: jsstring
  pg_responseText :: jsval
  pg_transcript :: jsval
  pg_loading :: bool
  pg_activeAgent :: jsstring
  pg_userQuery :: jsstring
  pg_queryResponse :: jsval

definition pg_initial :: page_state where
  "pg_initial = \<lparr>pg_inputUrl = [], pg_responseText = JStr [], pg_transcript = JStr [],
     pg_loading = False, pg_activeAgent = asc ''agent1'', pg_userQuery = [],
     pg_queryResponse = JStr []\<rparr>"

definition agents :: jsval where
  "agents = JObj [(asc ''agent1'', JStr (asc ''gemini'')),
                  (asc ''agent2'', JStr (asc ''gpt-3.5-turbo'')),
                  (asc ''agent3'', JStr (asc ''claude''))]"

definition pg_handleSubmit :: "network \<Rightarrow> page_state \<Rightarrow> page_state io" where
  "pg_handleSubmit net st =
     (if pg_inputUrl st = [] then (st, [])
      else
        (let st1 = st\<lparr>pg_loading := True\<rparr>
         in case axios_post net (asc ''http://localhost:8000/api/summary'')
                   (JObj [(asc ''url'', JStr (pg_inputUrl st)),
                          (asc ''agent'', js_prop agents (pg_activeAgent st))]) of
              (Inr res, tr) \<Rightarrow>
                (case member (data res) (asc ''summary'') of
                   Inr summary \<Rightarrow>
                     (st1\<lparr>pg_responseText := js_or summary (JStr []),
                           pg_transcript := js_or (js_prop (data res) (asc ''transcript'')) (JStr []),
                           pg_loading := False\<rparr>, tr)
                 | Inl e \<Rightarrow> (st1\<lparr>pg_loading := False\<rparr>, tr))
            | (Inl err, tr) \<Rightarrow> (st1\<lparr>pg_loading := False\<rparr>, tr)))"

definition pg_handleQuery :: "network \<Rightarrow> page_state \<Rightarrow> page_state io" where
  "pg_handleQuery net st =
     (if pg_userQuery st = [] \<or> \<not> truthy (pg_transcript st) then (st, [])
      else
        (let st1 = st\<lparr>pg_loading := True\<rparr>
         in case axios_post net (asc ''http://localhost:8000/api/query'')
                   (JObj [(asc ''transcript'', pg_transcript st),
                          (asc ''query'', JStr (pg_userQuery st))]) of
              (Inr res, tr) \<Rightarrow>
                (case member (data res) (asc ''response'') of
                   Inr answer \<Rightarrow>
                     (st1\<lparr>pg_queryResponse := js_or answer (JStr []), pg_loading := False\<rparr>, tr)
                 | Inl e \<Rightarrow> (st1\<lparr>pg_loading := False\<rparr>, tr))
            | (Inl err, tr) \<Rightarrow> (st1\<lparr>pg_loading := False\<rparr>, tr)))"

text \<open>The \<open>disabled\<close> attribute of the button that calls \<open>handleQuery\<close>.\<close>

definition pg_ask_disabled :: "page_state \<Rightarrow> bool" where
  "pg_ask_disabled st = (pg_loading st \<or> \<not> truthy (pg_transcript st))"

section \<open>The error kinds of the specification\<close>





section \<open>The options of the selector, described\<close>

text \<open>
  What the selector shows, said without the loops of the component: for each popular code,
  in the order of \<open>popularLanguages\<close>, the first entry of the list that has this code, when
  there is one; then the entries whose code is no popular code, in the order of the list.
  A later entry that repeats a popular code is shown nowhere. Rendering raises a TypeError
  when the list is no array or holds a nullish entry.
\<close>

definition has_code :: "jsstring \<Rightarrow> jsval \<Rightarrow> bool" where
  "has_code c lang = (js_prop lang (asc ''code'') = JStr c)"

definition popular_shown :: "jsval list \<Rightarrow> jsval list" where
  "popular_shown ls =
     concat (map (\<lambda>c. case find (has_code c) ls of Some lang \<Rightarrow> [lang] | None \<Rightarrow> [])
                 popularLanguages)"

definition other_shown :: "jsval list \<Rightarrow> jsval list" where
  "other_shown ls = filter (\<lambda>lang. \<not> list_ex (\<lambda>c. has_code c lang) popularLanguages) ls"

definition loading_option :: select_option where
  "loading_option = \<lparr>opt_value = JUndefined, opt_label = JStr (asc ''Loading languages...'')\<rparr>"

definition shown_options :: "analyzer_state \<Rightarrow> engine_error + select_option list" where
  "shown_options st =
     (case va_supportedLanguages st of
        JArr ls \<Rightarrow>
          if list_ex nullish ls then Inl TypeError
          else if va_loadingLanguages st then Inr [loading_option]
          else Inr (map lang_option (popular_shown ls @ other_shown ls))
      | _ \<Rightarrow> Inl TypeError)"

section \<open>The display string of the specification\<close>

text \<open>
  The specification composes the display string of a language from its flag and its native
  name. Both readings are given: the two strings joined directly, and joined by a space.
\<close>

definition flag_native :: "jsval \<Rightarrow> jsval" where
  "flag_native lang =
     JStr (to_string (js_prop lang (asc ''flag'')) @ to_string (js_prop lang (asc ''native_name'')))"

definition flag_space_native :: "jsval \<Rightarrow> jsval" where
  "flag_space_native lang =
     JStr (to_string (js_prop lang (asc ''flag'')) @ asc '' '' @
           to_string (js_prop lang (asc ''native_name'')))"

section \<open>Example environments\<close>

text \<open>A network on which no request gets through.\<close>

definition offline :: network where
  "offline req = Rejected \<lparr>err_message = asc ''Network Error'', err_response = None, err_request = True\<rparr>"







text \<open>A backend that answers every request with the same body.\<close>

definition answering :: "jsval \<Rightarrow> network" where
  "answering body req = Fulfilled \<lparr>status = 200, data = body\<rparr>"

definition sample_analysis :: jsval where
  "sample_analysis = JObj [(asc ''transcript'', JStr (asc ''hello world'')), (asc ''summary'', JStr (asc ''a greeting''))]"

definition sample_catalog :: jsval where
  "sample_catalog =
     JObj [(asc ''languages'',
            JArr [lang_entry (asc ''en'') (asc ''English'') (asc ''English'') (asc ''US'') (asc ''English (US)'')]),
           (asc ''total_languages'', JNum (asc ''1''))]"

definition languages_request :: request where
  "languages_request = \<lparr>req_method = GET, req_url = asc ''/api/languages'', req_body = JUndefined\<rparr>"

definition health_request :: request where
  "health_request = \<lparr>req_method = GET, req_url = asc ''/health'', req_body = JUndefined\<rparr>"

section \<open>Properties of the HTTP client\<close>

lemma api_call_rejected:
  "net req = Rejected e \<Longrightarrow> api_call net req = (Inl (response_error_handler e), [req])"
  by (simp add: api_call_def)

lemma api_call_fulfilled:
  "net req = Fulfilled r \<Longrightarrow> api_call net req = (Inr r, [req])"
  by (simp add: api_call_def)








text \<open>
  C2. Whatever the catalog request is rejected with, \<open>getSupportedLanguages\<close> returns a
  value and does not throw: the fallback catalog, whose language list has exactly the ten
  codes en, es, fr, de, it, ja, ko, zh, hi, ar and whose \<open>total_languages\<close> is 10.
\<close>

theorem languages_fallback:
  assumes "net languages_request = Rejected e"
  shows "getSupportedLanguages net = (Inr fallback_catalog, [languages_request]) \<and>
         js_prop fallback_catalog (asc ''languages'') = JArr fallback_languages \<and>
         length fallback_languages = 10 \<and>
         map (\<lambda>l. js_prop l (asc ''code'')) fallback_languages =
           map (\<lambda>c. JStr (asc c)) [''en'', ''es'', ''fr'', ''de'', ''it'', ''ja'', ''ko'', ''zh'', ''hi'', ''ar''] \<and>
         js_prop fallback_catalog (asc ''total_languages'') = JNum (asc ''10'')"
proof -
  have "getSupportedLanguages net = (Inr fallback_catalog, [languages_request])"
    using assms
    by (simp add: getSupportedLanguages_def api_get_def api_call_rejected languages_request_def)
  moreover have "js_prop fallback_catalog (asc ''languages'') = JArr fallback_languages"
    by (simp add: fallback_catalog_def asc_def)
  moreover have "length fallback_languages = 10"
    by (simp add: fallback_languages_def)
  moreover have "map (\<lambda>l. js_prop l (asc ''code'')) fallback_languages =
      map (\<lambda>c. JStr (asc c)) [''en'', ''es'', ''fr'', ''de'', ''it'', ''ja'', ''ko'', ''zh'', ''hi'', ''ar'']"
    by (simp add: fallback_languages_def lang_entry_def asc_def)
  moreover have "js_prop fallback_catalog (asc ''total_languages'') = JNum (asc ''10'')"
    by (simp add: fallback_catalog_def asc_def)
  ultimately show ?thesis
    by simp
qed

theorem languages_fallback_witness:
  "offline languages_request =
     Rejected \<lparr>err_message = asc ''Network Error'', err_response = None, err_request = True\<rparr> \<and>
   getSupportedLanguages offline = (Inr fallback_catalog, [languages_request])"
proof -
  have h: "offline languages_request =
     Rejected \<lparr>err_message = asc ''Network Error'', err_response = None, err_request = True\<rparr>"
    by (simp add: offline_def)
  show ?thesis
    using h languages_fallback [of offline, OF h] by simp
qed

text \<open>
  C9. The backward-compatibility functions agree with the advanced operations called with
  \<open>null\<close> as last argument, for every url, transcript, query and language, in the result
  and in the requests issued.
\<close>

theorem compatibility_wrappers:
  "analyzeVideo net url language = analyzeVideoAdvanced net url language JNull \<and>
   queryTranscript net transcript query language =
     queryTranscriptAdvanced net transcript query language JNull"
  by (simp add: analyzeVideo_def analyzeVideoAdvanced_def queryTranscript_def
      queryTranscriptAdvanced_def default_param_def Let_def)

text \<open>
  C10. \<open>checkApiHealth\<close> always returns a boolean and never throws: \<open>true\<close> exactly when the
  GET of \<open>/health\<close> is answered with status 200, \<open>false\<close> in every other case, in particular
  for every rejection.
\<close>

theorem health_check_total:
  "checkApiHealth net =
     (Inr (\<exists>r. net health_request = Fulfilled r \<and> status r = 200), [health_request])"
  by (auto simp add: checkApiHealth_def api_get_def api_call_def health_request_def
      split: outcome.split)

section \<open>Properties of the analyzer form\<close>

lemma trim_eq_Nil: "trim s = [] \<longleftrightarrow> (\<forall>c\<in>set s. white_space c)"
proof
  assume "trim s = []"
  then have all: "\<forall>c\<in>set (dropWhile white_space s). white_space c"
    by (simp add: trim_def)
  have "dropWhile white_space s = []"
  proof (rule ccontr)
    assume ne: "dropWhile white_space s \<noteq> []"
    then have "\<not> white_space (hd (dropWhile white_space s))"
      by (rule hd_dropWhile)
    moreover have "hd (dropWhile white_space s) \<in> set (dropWhile white_space s)"
      using ne by simp
    ultimately show False
      using all by blast
  qed
  then show "\<forall>c\<in>set s. white_space c"
    by simp
next
  assume "\<forall>c\<in>set s. white_space c"
  then have "dropWhile white_space s = []"
    by simp
  then show "trim s = []"
    by (simp add: trim_def del: dropWhile_eq_Nil_conv)
qed

lemma re_test_Chr_mem: "re_test False (Chr a # p) u \<Longrightarrow> a \<in> set u"
  by (induction u) auto

text \<open>Each of the four patterns starts with the letter y, which is no white space.\<close>

lemma validate_has_y: "validateYouTubeUrl u \<Longrightarrow> 0x79 \<in> set u"
  unfolding validateYouTubeUrl_def patterns_def
  by (auto simp: id_pattern_def asc_def dest: re_test_Chr_mem)

lemma validate_imp_trim: "validateYouTubeUrl u \<Longrightarrow> trim u \<noteq> []"
proof -
  assume "validateYouTubeUrl u"
  then have "0x79 \<in> set u" by (rule validate_has_y)
  moreover have "\<not> white_space 0x79" by (simp add: white_space_def)
  ultimately show ?thesis
    using trim_eq_Nil by blast
qed

lemma not_a_url_invalid: "\<not> validateYouTubeUrl (asc ''not-a-url'')"
  by code_simp

lemma sample_url_valid: "validateYouTubeUrl (asc ''https://www.youtube.com/watch?v=dQw4w9WgXcQ'')"
  by code_simp

text \<open>
  C1, as stated, fails on the single-page front end: \<open>not-a-url\<close> matches none of the four
  patterns, and its \<open>handleSubmit\<close> posts it to the summary endpoint.
\<close>

theorem single_page_posts_unvalidated_url:
  "\<not> validateYouTubeUrl (asc ''not-a-url'') \<and>
   snd (pg_handleSubmit offline (pg_initial\<lparr>pg_inputUrl := asc ''not-a-url''\<rparr>)) =
     [\<lparr>req_method = POST, req_url = asc ''http://localhost:8000/api/summary'',
       req_body = JObj [(asc ''url'', JStr (asc ''not-a-url'')),
                        (asc ''agent'', JStr (asc ''gemini''))]\<rparr>]"
  by code_simp

text \<open>
  C1, amended. In the multilingual front end, submitting a URL that matches none of the
  four patterns flags the form as invalid, leaves the page state as it was and issues no
  request. The single-page front end checks no pattern: it rejects locally, without a
  request, only the empty URL, and posts every other input to the summary endpoint.
\<close>

theorem invalid_url_rejected:
  "(\<not> validateYouTubeUrl (va_url va) \<longrightarrow>
      submit_form net app va = ((va\<lparr>va_isValidUrl := False\<rparr>, app), [])) \<and>
   (pg_inputUrl st = [] \<longrightarrow> pg_handleSubmit net st = (st, [])) \<and>
   (pg_inputUrl st \<noteq> [] \<longrightarrow>
      snd (pg_handleSubmit net st) =
        [\<lparr>req_method = POST, req_url = asc ''http://localhost:8000/api/summary'',
          req_body = JObj [(asc ''url'', JStr (pg_inputUrl st)),
                           (asc ''agent'', js_prop agents (pg_activeAgent st))]\<rparr>])"
proof (intro conjI impI)
  assume "\<not> validateYouTubeUrl (va_url va)"
  then show "submit_form net app va = ((va\<lparr>va_isValidUrl := False\<rparr>, app), [])"
    by (simp add: submit_form_def va_handleSubmit_def)
next
  assume "pg_inputUrl st = []"
  then show "pg_handleSubmit net st = (st, [])"
    by (simp add: pg_handleSubmit_def)
next
  assume "pg_inputUrl st \<noteq> []"
  then show "snd (pg_handleSubmit net st) =
        [\<lparr>req_method = POST, req_url = asc ''http://localhost:8000/api/summary'',
          req_body = JObj [(asc ''url'', JStr (pg_inputUrl st)),
                           (asc ''agent'', js_prop agents (pg_activeAgent st))]\<rparr>]"
    by (simp add: pg_handleSubmit_def axios_post_def Let_def split: outcome.split sum.split)
qed

theorem invalid_url_rejected_witness:
  "submit_form offline app_initial (va_initial\<lparr>va_url := asc ''not-a-url''\<rparr>) =
     ((va_initial\<lparr>va_url := asc ''not-a-url'', va_isValidUrl := False\<rparr>, app_initial), []) \<and>
   pg_handleSubmit offline pg_initial = (pg_initial, []) \<and>
   snd (pg_handleSubmit offline (pg_initial\<lparr>pg_inputUrl := asc ''x''\<rparr>)) =
     [\<lparr>req_method = POST, req_url = asc ''http://localhost:8000/api/summary'',
       req_body = JObj [(asc ''url'', JStr (asc ''x'')), (asc ''agent'', JStr (asc ''gemini''))]\<rparr>]"
proof -
  have h3: "pg_inputUrl (pg_initial\<lparr>pg_inputUrl := asc ''x''\<rparr>) \<noteq> []"
    by (simp add: asc_def)
  have ag: "js_prop agents (pg_activeAgent (pg_initial\<lparr>pg_inputUrl := asc ''x''\<rparr>)) =
      JStr (asc ''gemini'')"
    by (simp add: agents_def pg_initial_def asc_def)
  have h1: "\<not> validateYouTubeUrl (va_url (va_initial\<lparr>va_url := asc ''not-a-url''\<rparr>))"
    using not_a_url_invalid by simp
  have h2: "pg_inputUrl pg_initial = []"
    by (simp add: pg_initial_def)
  show ?thesis
    using h1 h2 h3 ag
      invalid_url_rejected [where va = "va_initial\<lparr>va_url := asc ''not-a-url''\<rparr>"
        and net = offline and app = app_initial and st = pg_initial]
      invalid_url_rejected [where va = "va_initial\<lparr>va_url := asc ''not-a-url''\<rparr>"
        and net = offline and app = app_initial
        and st = "pg_initial\<lparr>pg_inputUrl := asc ''x''\<rparr>"]
    by simp
qed

text \<open>
  C4. A submission whose URL matches a pattern issues exactly one request: a POST to
  \<open>/api/advanced-summary\<close> whose body holds the URL, the selected output language, the
  auto-detect flag \<open>true\<close>, and as hint \<open>null\<close> when the hint field is empty (the selected
  hint otherwise).
\<close>

theorem valid_submission_posts_once:
  assumes "validateYouTubeUrl (va_url va)"
  shows "snd (submit_form net app va) =
     [\<lparr>req_method = POST, req_url = asc ''/api/advanced-summary'',
       req_body = JObj [(asc ''url'', JStr (va_url va)),
                        (asc ''output_language'', JStr (va_outputLanguage va)),
                        (asc ''auto_detect_video_language'', JBool True),
                        (asc ''video_language_hint'',
                           if va_videoLanguageHint va = [] then JNull
                           else JStr (va_videoLanguageHint va))]\<rparr>]"
proof -
  have t: "trim (va_url va) \<noteq> []"
    using assms by (rule validate_imp_trim)
  have s: "va_handleSubmit va = (va\<lparr>va_isValidUrl := True\<rparr>,
            Some (JStr (va_url va), JStr (va_outputLanguage va),
                  if va_videoLanguageHint va = [] then JNull else JStr (va_videoLanguageHint va)))"
    using assms t by (simp add: va_handleSubmit_def js_or_def)
  show ?thesis
    by (simp add: submit_form_def s handleAnalyzeVideo_def analyzeVideoAdvanced_def
        default_param_def api_post_def api_call_def Let_def
        split: outcome.split prod.split sum.split)
qed

theorem valid_submission_posts_once_witness:
  "snd (submit_form offline app_initial
          (va_initial\<lparr>va_url := asc ''https://www.youtube.com/watch?v=dQw4w9WgXcQ'',
                      va_outputLanguage := asc ''ko''\<rparr>)) =
     [\<lparr>req_method = POST, req_url = asc ''/api/advanced-summary'',
       req_body = JObj [(asc ''url'', JStr (asc ''https://www.youtube.com/watch?v=dQw4w9WgXcQ'')),
                        (asc ''output_language'', JStr (asc ''ko'')),
                        (asc ''auto_detect_video_language'', JBool True),
                        (asc ''video_language_hint'', JNull)]\<rparr>]"
proof -
  have h: "validateYouTubeUrl
     (va_url (va_initial\<lparr>va_url := asc ''https://www.youtube.com/watch?v=dQw4w9WgXcQ'',
                         va_outputLanguage := asc ''ko''\<rparr>))"
    using sample_url_valid by simp
  show ?thesis
    using valid_submission_posts_once [OF h, of offline app_initial]
    by (simp add: va_initial_def)
qed

section \<open>Properties of the page\<close>

text \<open>
  C5. While the stored transcript is falsy (empty or absent), no query request is issued,
  whatever the question: the page's \<open>handleQuery\<close> returns \<open>null\<close> at once, so a question
  submitted in the viewer sends nothing; in the single-page front end \<open>handleQuery\<close>
  returns at once and the button is disabled.
\<close>

theorem no_query_without_transcript:
  "(\<not> truthy (opt_prop (app_analysisData app) (asc ''transcript'')) \<longrightarrow>
      handleQuery net app q = (Inr JNull, []) \<and> snd (submit_question net app ar) = []) \<and>
   (\<not> truthy (pg_transcript st) \<longrightarrow> pg_handleQuery net st = (st, []) \<and> pg_ask_disabled st)"
  by (simp add: handleQuery_def submit_question_def ar_handleQuery_def pg_handleQuery_def
      pg_ask_disabled_def Let_def)

theorem no_query_without_transcript_witness:
  "handleQuery (answering sample_analysis) app_initial (JStr (asc ''Summarize the conclusion'')) =
     (Inr JNull, []) \<and>
   pg_handleQuery (answering sample_analysis) (pg_initial\<lparr>pg_userQuery := asc ''Why?''\<rparr>) =
     (pg_initial\<lparr>pg_userQuery := asc ''Why?''\<rparr>, [])"
proof -
  have h1: "\<not> truthy (opt_prop (app_analysisData app_initial) (asc ''transcript''))"
    by (simp add: app_initial_def opt_prop_def nullish_def)
  have h2: "\<not> truthy (pg_transcript (pg_initial\<lparr>pg_userQuery := asc ''Why?''\<rparr>))"
    by (simp add: pg_initial_def)
  show ?thesis
    using h1 h2
      no_query_without_transcript [where app = app_initial and net = "answering sample_analysis"
        and q = "JStr (asc ''Summarize the conclusion'')"
        and st = "pg_initial\<lparr>pg_userQuery := asc ''Why?''\<rparr>"]
    by simp
qed

lemma default_param_idem: "default_param (default_param a d) d = default_param a d"
  by (simp add: default_param_def)

lemma analyze_defaults:
  "analyzeVideoAdvanced net url (default_param l (JStr (asc ''en''))) (default_param h JNull)
   = analyzeVideoAdvanced net url l h"
  by (simp add: analyzeVideoAdvanced_def default_param_idem)

text \<open>Every error the analysis operation throws comes from the interceptor, with a message.\<close>

lemma analyze_error_nonempty:
  assumes "fst (analyzeVideoAdvanced net url l h) = Inl err"
  shows "err_msg err \<noteq> []"
proof -
  obtain e where "err = response_error_handler e"
    using assms
    by (auto simp: analyzeVideoAdvanced_def api_post_def api_call_def Let_def
        split: outcome.splits)
  then show ?thesis
    by (auto simp: response_error_handler_def Let_def asc_def network_advice_def
        split: option.splits)
qed

text \<open>
  C6. When the analysis call fails, the page ends with no analysis data, whatever it held
  before, with the message of the propagated error as its error, and not loading. When
  the call succeeds, the analysis data is the new result, whatever was there before, and
  the error is cleared.
\<close>

theorem failed_analysis_clears_result:
  "(fst (analyzeVideoAdvanced net url l h) = Inl err \<longrightarrow>
      app_analysisData (fst (handleAnalyzeVideo net st url l h)) = JNull \<and>
      app_error (fst (handleAnalyzeVideo net st url l h)) = JStr (err_msg err) \<and>
      err_msg err \<noteq> [] \<and>
      \<not> app_loading (fst (handleAnalyzeVideo net st url l h))) \<and>
   (fst (analyzeVideoAdvanced net url l h) = Inr d \<longrightarrow>
      app_analysisData (fst (handleAnalyzeVideo net st url l h)) = d \<and>
      app_error (fst (handleAnalyzeVideo net st url l h)) = JNull \<and>
      \<not> app_loading (fst (handleAnalyzeVideo net st url l h)))"
proof (intro conjI impI)
  assume a: "fst (analyzeVideoAdvanced net url l h) = Inl err"
  then show ne: "err_msg err \<noteq> []" by (rule analyze_error_nonempty)
  obtain tr where r: "analyzeVideoAdvanced net url l h = (Inl err, tr)"
    using a by (cases "analyzeVideoAdvanced net url l h") simp
  have hv: "handleAnalyzeVideo net st url l h =
      (st\<lparr>app_loading := False, app_error := JStr (err_msg err), app_analysisData := JNull,
           app_selectedLanguage := default_param l (JStr (asc ''en''))\<rparr>, tr)"
    using ne by (simp add: handleAnalyzeVideo_def Let_def analyze_defaults r js_or_def)
  show "app_analysisData (fst (handleAnalyzeVideo net st url l h)) = JNull"
    by (simp add: hv)
  show "app_error (fst (handleAnalyzeVideo net st url l h)) = JStr (err_msg err)"
    by (simp add: hv)
  show "\<not> app_loading (fst (handleAnalyzeVideo net st url l h))"
    by (simp add: hv)
next
  assume a: "fst (analyzeVideoAdvanced net url l h) = Inr d"
  obtain tr where r: "analyzeVideoAdvanced net url l h = (Inr d, tr)"
    using a by (cases "analyzeVideoAdvanced net url l h") simp
  have hv: "handleAnalyzeVideo net st url l h =
      (st\<lparr>app_loading := False, app_error := JNull, app_analysisData := d,
           app_selectedLanguage := default_param l (JStr (asc ''en''))\<rparr>, tr)"
    by (simp add: handleAnalyzeVideo_def Let_def analyze_defaults r)
  show "app_analysisData (fst (handleAnalyzeVideo net st url l h)) = d"
    by (simp add: hv)
  show "app_error (fst (handleAnalyzeVideo net st url l h)) = JNull"
    by (simp add: hv)
  show "\<not> app_loading (fst (handleAnalyzeVideo net st url l h))"
    by (simp add: hv)
qed

theorem failed_analysis_clears_result_witness:
  "app_analysisData (fst (handleAnalyzeVideo offline (app_initial\<lparr>app_analysisData := sample_analysis\<rparr>)
      (JStr (asc ''https://youtu.be/dQw4w9WgXcQ'')) (JStr (asc ''ko'')) JNull)) = JNull \<and>
   app_error (fst (handleAnalyzeVideo offline (app_initial\<lparr>app_analysisData := sample_analysis\<rparr>)
      (JStr (asc ''https://youtu.be/dQw4w9WgXcQ'')) (JStr (asc ''ko'')) JNull)) = JStr network_advice \<and>
   app_analysisData (fst (handleAnalyzeVideo (answering sample_analysis) app_initial
      (JStr (asc ''https://youtu.be/dQw4w9WgXcQ'')) (JStr (asc ''ko'')) JNull)) = sample_analysis"
proof -
  have h1: "fst (analyzeVideoAdvanced offline (JStr (asc ''https://youtu.be/dQw4w9WgXcQ''))
      (JStr (asc ''ko'')) JNull) = Inl (Error network_advice)"
    by (simp add: analyzeVideoAdvanced_def api_post_def api_call_def offline_def
        response_error_handler_def Let_def)
  have h2: "fst (analyzeVideoAdvanced (answering sample_analysis)
      (JStr (asc ''https://youtu.be/dQw4w9WgXcQ'')) (JStr (asc ''ko'')) JNull) = Inr sample_analysis"
    by (simp add: analyzeVideoAdvanced_def api_post_def api_call_def answering_def Let_def)
  show ?thesis
    using h1 h2
      failed_analysis_clears_result [where net = offline and err = "Error network_advice"
        and st = "app_initial\<lparr>app_analysisData := sample_analysis\<rparr>"
        and url = "JStr (asc ''https://youtu.be/dQw4w9WgXcQ'')" and l = "JStr (asc ''ko'')"
        and h = JNull]
      failed_analysis_clears_result [where net = "answering sample_analysis"
        and d = sample_analysis and st = app_initial
        and url = "JStr (asc ''https://youtu.be/dQw4w9WgXcQ'')" and l = "JStr (asc ''ko'')"
        and h = JNull]
    by simp
qed

section \<open>Properties of the results viewer\<close>

text \<open>
  C7. The search term is handed to the \<open>RegExp\<close> constructor as it is typed, so it is read
  as syntax and not as text. Searching \<open>a.b\<close> for \<open>.\<close> marks each of the three characters
  instead of the one dot; searching for \<open>(\<close> raises a SyntaxError while the tab renders.
  A term without syntax characters is marked where it occurs, in either case: \<open>B\<close> marks
  the \<open>b\<close>.
\<close>

theorem highlight_reads_term_as_syntax:
  "highlightSearchTerm (JStr (asc ''a.b'')) (asc ''.'') =
     Some (Inr (JStr (mark (asc ''a'') @ mark (asc ''.'') @ mark (asc ''b'')))) \<and>
   highlightSearchTerm (JStr (asc ''f(x)'')) (asc ''('') = Some (Inl SyntaxError) \<and>
   highlightSearchTerm (JStr (asc ''a.b'')) (asc ''B'') =
     Some (Inr (JStr (asc ''a.'' @ mark (asc ''b''))))"
  by code_simp

section \<open>Properties of the language selector\<close>

lemma has_code_truthy: "has_code c l \<Longrightarrow> truthy l"
  by (cases l) (simp_all add: has_code_def)

lemma find_code_error: "find_code ls c = Inl e \<Longrightarrow> e = TypeError"
  by (induction ls) (auto simp: member_def split: if_splits sum.splits)

lemma lookup_codes_error: "lookup_codes v cs = Inl e \<Longrightarrow> e = TypeError"
  by (induction cs) (auto simp: getLanguageByCode_def split: sum.splits jsval.splits dest: find_code_error)

lemma popularLangs_error: "popularLangs v = Inl e \<Longrightarrow> e = TypeError"
  by (auto simp: popularLangs_def split: sum.splits dest: lookup_codes_error)

lemma filter_other_error: "filter_other ls = Inl e \<Longrightarrow> e = TypeError"
  by (induction ls arbitrary: e) (auto simp: member_def split: if_splits sum.splits)

lemma filter_other_nullish: "list_ex nullish ls \<Longrightarrow> filter_other ls = Inl TypeError"
  by (induction ls) (auto simp: member_def split: sum.splits dest: filter_other_error)

lemma find_code_ok:
  "\<not> list_ex nullish ls \<Longrightarrow>
   find_code ls c = Inr (case find (has_code c) ls of Some l \<Rightarrow> l | None \<Rightarrow> JUndefined)"
  by (induction ls) (auto simp: member_def has_code_def)

lemma lookup_codes_ok:
  "\<not> list_ex nullish ls \<Longrightarrow>
   lookup_codes (JArr ls) cs =
     Inr (map (\<lambda>c. case find (has_code c) ls of Some l \<Rightarrow> l | None \<Rightarrow> JUndefined) cs)"
  by (induction cs) (simp_all add: getLanguageByCode_def find_code_ok)

lemma filter_found:
  "filter truthy (map (\<lambda>c. case find (has_code c) ls of Some l \<Rightarrow> l | None \<Rightarrow> JUndefined) cs) =
   concat (map (\<lambda>c. case find (has_code c) ls of Some l \<Rightarrow> [l] | None \<Rightarrow> []) cs)"
proof (induction cs)
  case Nil
  then show ?case by simp
next
  case (Cons c cs)
  show ?case
  proof (cases "find (has_code c) ls")
    case None
    then show ?thesis using Cons by simp
  next
    case (Some l)
    then have "has_code c l"
      by (auto simp: find_Some_iff)
    then have "truthy l" by (rule has_code_truthy)
    then show ?thesis using Cons Some by simp
  qed
qed

lemma popularLangs_ok: "\<not> list_ex nullish ls \<Longrightarrow> popularLangs (JArr ls) = Inr (popular_shown ls)"
  by (simp add: popularLangs_def lookup_codes_ok filter_found popular_shown_def)

lemma filter_other_ok: "\<not> list_ex nullish ls \<Longrightarrow> filter_other ls = Inr (other_shown ls)"
  by (induction ls) (auto simp: member_def other_shown_def has_code_def list_ex_iff)

lemma popularLangs_not_array: "(\<forall>ls. v \<noteq> JArr ls) \<Longrightarrow> popularLangs v = Inl TypeError"
  by (cases v) (simp_all add: popularLangs_def popularLanguages_def getLanguageByCode_def)

lemma options_exact: "output_language_options st = shown_options st"
proof (cases "va_supportedLanguages st")
  case (JArr ls)
  show ?thesis
  proof (cases "list_ex nullish ls")
    case True
    have "otherLangs (JArr ls) = Inl TypeError"
      using True by (simp add: otherLangs_def filter_other_nullish)
    moreover have "\<And>e. popularLangs (JArr ls) = Inl e \<Longrightarrow> e = TypeError"
      by (rule popularLangs_error)
    ultimately show ?thesis
      using JArr True
      by (auto simp: output_language_options_def shown_options_def split: sum.splits)
  next
    case False
    then show ?thesis
      using JArr
      by (simp add: output_language_options_def shown_options_def popularLangs_ok otherLangs_def
          filter_other_ok loading_option_def)
  qed
qed (simp_all add: output_language_options_def shown_options_def popularLangs_not_array)

lemma every_code_shown:
  assumes "l \<in> set ls"
  shows "\<exists>l'\<in>set (popular_shown ls @ other_shown ls).
           js_prop l' (asc ''code'') = js_prop l (asc ''code'')"
proof (cases "list_ex (\<lambda>c. has_code c l) popularLanguages")
  case True
  then obtain c where c: "c \<in> set popularLanguages" and hc: "has_code c l"
    by (auto simp: list_ex_iff)
  have "find (has_code c) ls \<noteq> None"
    using assms hc by (auto simp: find_None_iff)
  then obtain l' where f: "find (has_code c) ls = Some l'"
    by auto
  then have hc': "has_code c l'"
    by (auto simp: find_Some_iff)
  have "l' \<in> set (popular_shown ls)"
    using c f by (force simp: popular_shown_def)
  then show ?thesis
    using hc hc' by (auto simp: has_code_def)
next
  case False
  then have "l \<in> set (other_shown ls)"
    using assms by (simp add: other_shown_def)
  then show ?thesis by auto
qed

lemma find_mem: "find P xs = Some x \<Longrightarrow> x \<in> set xs"
  by (auto simp: find_Some_iff)

lemma shown_are_entries: "set (popular_shown ls @ other_shown ls) \<subseteq> set ls"
  by (auto simp: popular_shown_def other_shown_def split: option.splits dest: find_mem sym)

lemma getSupportedLanguages_rejected:
  "net languages_request = Rejected e \<Longrightarrow>
   getSupportedLanguages net = (Inr fallback_catalog, [languages_request])"
  by (simp add: getSupportedLanguages_def api_get_def api_call_def languages_request_def)

lemma loadLanguages_rejected:
  assumes "net languages_request = Rejected e"
  shows "fst (loadLanguages net st) =
     st\<lparr>va_loadingLanguages := False, va_supportedLanguages := JArr fallback_languages\<rparr>"
proof -
  have "member fallback_catalog (asc ''languages'') = Inr (JArr fallback_languages)"
    by (simp add: member_def nullish_def fallback_catalog_def asc_def)
  then show ?thesis
    using getSupportedLanguages_rejected [of net e, OF assms]
    by (simp add: loadLanguages_def Let_def)
qed

lemma loadLanguages_sample:
  "fst (loadLanguages (answering sample_catalog) va_initial) =
     va_initial\<lparr>va_supportedLanguages :=
       JArr [lang_entry (asc ''en'') (asc ''English'') (asc ''English'') (asc ''US'')
               (asc ''English (US)'')]\<rparr>"
  by code_simp

lemma popular_fallback:
  "popularLangs (JArr fallback_languages) =
     Inr (map (\<lambda>i. fallback_languages ! i) [0, 1, 2, 3, 5, 6, 7, 8, 9])"
  by code_simp

lemma other_fallback: "otherLangs (JArr fallback_languages) = Inr [fallback_languages ! 4]"
  by code_simp

lemma options_fallback:
  assumes "va_supportedLanguages st = JArr fallback_languages" and "\<not> va_loadingLanguages st"
  shows "output_language_options st =
     Inr (map (\<lambda>i. lang_option (fallback_languages ! i)) [0, 1, 2, 3, 5, 6, 7, 8, 9, 4])"
  using assms by (simp add: output_language_options_def popular_fallback other_fallback)

lemma options_sample:
  "output_language_options
     (va_initial\<lparr>va_supportedLanguages :=
       JArr [lang_entry (asc ''en'') (asc ''English'') (asc ''English'') (asc ''US'')
               (asc ''English (US)'')]\<rparr>) =
   Inr [\<lparr>opt_value = JStr (asc ''en''), opt_label = JStr (asc ''English (US)'')\<rparr>]"
  by code_simp

lemma fallback_display:
  "list_all (\<lambda>l. js_prop l (asc ''display'') = flag_space_native l) fallback_languages"
  by code_simp

lemma fallback_first:
  "lang_option (fallback_languages ! 0) =
     \<lparr>opt_value = JStr (asc ''en''),
      opt_label = JStr ([0xD83C, 0xDDFA, 0xD83C, 0xDDF8] @ asc '' English'')\<rparr> \<and>
   flag_native (hd fallback_languages) = JStr ([0xD83C, 0xDDFA, 0xD83C, 0xDDF8] @ asc ''English'')"
  by code_simp

lemma sample_flag_native:
  "flag_space_native (lang_entry (asc ''en'') (asc ''English'') (asc ''English'') (asc ''US'')
      (asc ''English (US)'')) = JStr (asc ''US English'')"
  by code_simp

text \<open>
  C8, as stated, fails on the fallback list: the option shown for \<open>en\<close> is the flag, a
  space and \<open>English\<close>, which is not the flag directly followed by \<open>English\<close>. And what the
  selector shows is the \<open>display\<close> field of the catalog, whatever it is: for a catalog entry
  with flag \<open>US\<close>, native name \<open>English\<close> and display \<open>English (US)\<close> it shows the latter.
\<close>

theorem display_is_not_flag_then_name:
  "opt_value (hd (projr (output_language_options (fst (loadLanguages offline va_initial))))) =
     JStr (asc ''en'') \<and>
   opt_label (hd (projr (output_language_options (fst (loadLanguages offline va_initial))))) =
     JStr ([0xD83C, 0xDDFA, 0xD83C, 0xDDF8] @ asc '' English'') \<and>
   flag_native (hd fallback_languages) = JStr ([0xD83C, 0xDDFA, 0xD83C, 0xDDF8] @ asc ''English'') \<and>
   opt_label (hd (projr (output_language_options (fst (loadLanguages offline va_initial))))) \<noteq>
     flag_native (hd fallback_languages) \<and>
   output_language_options (fst (loadLanguages (answering sample_catalog) va_initial)) =
     Inr [\<lparr>opt_value = JStr (asc ''en''), opt_label = JStr (asc ''English (US)'')\<rparr>] \<and>
   flag_space_native (lang_entry (asc ''en'') (asc ''English'') (asc ''English'') (asc ''US'')
      (asc ''English (US)'')) = JStr (asc ''US English'')"
proof -
  have r: "offline languages_request =
      Rejected \<lparr>err_message = asc ''Network Error'', err_response = None, err_request = True\<rparr>"
    by (simp add: offline_def)
  have st: "fst (loadLanguages offline va_initial) =
      va_initial\<lparr>va_loadingLanguages := False, va_supportedLanguages := JArr fallback_languages\<rparr>"
    using r by (rule loadLanguages_rejected)
  have o: "output_language_options (fst (loadLanguages offline va_initial)) =
      Inr (map (\<lambda>i. lang_option (fallback_languages ! i)) [0, 1, 2, 3, 5, 6, 7, 8, 9, 4])"
    by (rule options_fallback) (simp_all add: st)
  have h: "hd (projr (output_language_options (fst (loadLanguages offline va_initial)))) =
      lang_option (fallback_languages ! 0)"
    by (simp add: o)
  have ne: "JStr ([0xD83C, 0xDDFA, 0xD83C, 0xDDF8] @ asc '' English'') \<noteq>
      JStr ([0xD83C, 0xDDFA, 0xD83C, 0xDDF8] @ asc ''English'')"
    by (simp add: asc_def)
  show ?thesis
    using ne by (simp add: h fallback_first loadLanguages_sample options_sample sample_flag_native)
qed

lemma shown_sample:
  "shown_options
     (va_initial\<lparr>va_supportedLanguages :=
       JArr [lang_entry (asc ''en'') (asc ''English'') (asc ''English'') (asc ''US'')
               (asc ''English (US)'')]\<rparr>) =
   Inr [\<lparr>opt_value = JStr (asc ''en''), opt_label = JStr (asc ''English (US)'')\<rparr>]"
  by code_simp

text \<open>
  C8, amended. The selector shows exactly the options described by \<open>shown_options\<close>. While
  the list is loading that is the one option \<open>Loading languages...\<close>; when the list is no
  array or holds a nullish entry, rendering raises a TypeError. Otherwise it is, for
  each popular code in turn, the first entry of the language list with that code, then
  every entry whose code is no popular code; each option has its entry's code as value and
  its entry's \<open>display\<close> field as text, as the catalog response or the fallback list supplies
  it, and nothing is composed from flag and native name. So for every code of the list
  there is an option under that code, showing the display field of an entry with that
  code, and every option is the code and display field of one entry. When the catalog
  call fails the options are those of the ten fallback entries, and the display string of
  each fallback entry is its flag, a space and its native name.
\<close>

theorem selector_shows_display_field:
  "output_language_options st = shown_options st \<and>
   (va_supportedLanguages st = JArr ls \<and> \<not> list_ex nullish ls \<and> \<not> va_loadingLanguages st \<longrightarrow>
      (\<exists>opts. output_language_options st = Inr opts \<and>
         (\<forall>l\<in>set ls. \<exists>x\<in>set opts.
             opt_value x = js_prop l (asc ''code'') \<and>
             (\<exists>l'\<in>set ls. js_prop l' (asc ''code'') = js_prop l (asc ''code'') \<and>
                          opt_label x = js_prop l' (asc ''display''))) \<and>
         (\<forall>x\<in>set opts. \<exists>l\<in>set ls. opt_value x = js_prop l (asc ''code'') \<and>
                                   opt_label x = js_prop l (asc ''display'')))) \<and>
   (net languages_request = Rejected e \<longrightarrow>
      output_language_options (fst (loadLanguages net st)) =
        Inr (map (\<lambda>i. lang_option (fallback_languages ! i)) [0, 1, 2, 3, 5, 6, 7, 8, 9, 4])) \<and>
   (\<forall>l\<in>set fallback_languages. js_prop l (asc ''display'') = flag_space_native l)"
proof (intro conjI impI)
  show "output_language_options st = shown_options st"
    by (rule options_exact)
next
  assume a: "va_supportedLanguages st = JArr ls \<and> \<not> list_ex nullish ls \<and> \<not> va_loadingLanguages st"
  define shown where "shown = popular_shown ls @ other_shown ls"
  have o: "output_language_options st = Inr (map lang_option shown)"
    using a by (simp add: options_exact shown_options_def shown_def)
  have sub: "set shown \<subseteq> set ls"
    unfolding shown_def by (rule shown_are_entries)
  have 1: "\<forall>l\<in>set ls. \<exists>x\<in>set (map lang_option shown).
             opt_value x = js_prop l (asc ''code'') \<and>
             (\<exists>l'\<in>set ls. js_prop l' (asc ''code'') = js_prop l (asc ''code'') \<and>
                          opt_label x = js_prop l' (asc ''display''))"
  proof
    fix l assume "l \<in> set ls"
    then obtain l' where m: "l' \<in> set shown"
      and c: "js_prop l' (asc ''code'') = js_prop l (asc ''code'')"
      using every_code_shown [of l ls] by (auto simp: shown_def)
    have "lang_option l' \<in> set (map lang_option shown)"
      using m by simp
    moreover have "opt_value (lang_option l') = js_prop l (asc ''code'')"
      using c by (simp add: lang_option_def)
    moreover have "l' \<in> set ls"
      using m sub by blast
    moreover have "opt_label (lang_option l') = js_prop l' (asc ''display'')"
      by (simp add: lang_option_def)
    ultimately show "\<exists>x\<in>set (map lang_option shown).
             opt_value x = js_prop l (asc ''code'') \<and>
             (\<exists>l'\<in>set ls. js_prop l' (asc ''code'') = js_prop l (asc ''code'') \<and>
                          opt_label x = js_prop l' (asc ''display''))"
      using c by blast
  qed
  have 2: "\<forall>x\<in>set (map lang_option shown). \<exists>l\<in>set ls.
             opt_value x = js_prop l (asc ''code'') \<and> opt_label x = js_prop l (asc ''display'')"
    using sub by (auto simp: lang_option_def)
  show "\<exists>opts. output_language_options st = Inr opts \<and>
         (\<forall>l\<in>set ls. \<exists>x\<in>set opts.
             opt_value x = js_prop l (asc ''code'') \<and>
             (\<exists>l'\<in>set ls. js_prop l' (asc ''code'') = js_prop l (asc ''code'') \<and>
                          opt_label x = js_prop l' (asc ''display''))) \<and>
         (\<forall>x\<in>set opts. \<exists>l\<in>set ls. opt_value x = js_prop l (asc ''code'') \<and>
                                   opt_label x = js_prop l (asc ''display''))"
    using o 1 2 by blast
next
  assume r: "net languages_request = Rejected e"
  have st: "fst (loadLanguages net st) =
      st\<lparr>va_loadingLanguages := False, va_supportedLanguages := JArr fallback_languages\<rparr>"
    using r by (rule loadLanguages_rejected)
  show "output_language_options (fst (loadLanguages net st)) =
      Inr (map (\<lambda>i. lang_option (fallback_languages ! i)) [0, 1, 2, 3, 5, 6, 7, 8, 9, 4])"
    by (rule options_fallback) (simp_all add: st)
next
  show "\<forall>l\<in>set fallback_languages. js_prop l (asc ''display'') = flag_space_native l"
    using fallback_display by (simp add: list_all_iff)
qed

theorem selector_shows_display_field_witness:
  "output_language_options (fst (loadLanguages offline va_initial)) =
     Inr (map (\<lambda>i. lang_option (fallback_languages ! i)) [0, 1, 2, 3, 5, 6, 7, 8, 9, 4]) \<and>
   js_prop (fallback_languages ! 0) (asc ''display'') = flag_space_native (fallback_languages ! 0) \<and>
   output_language_options
     (va_initial\<lparr>va_supportedLanguages :=
        JArr [lang_entry (asc ''en'') (asc ''English'') (asc ''English'') (asc ''US'')
                (asc ''English (US)'')]\<rparr>) =
     Inr [\<lparr>opt_value = JStr (asc ''en''), opt_label = JStr (asc ''English (US)'')\<rparr>]"
proof -
  define entry where
    "entry = lang_entry (asc ''en'') (asc ''English'') (asc ''English'') (asc ''US'')
               (asc ''English (US)'')"
  have r: "offline languages_request =
      Rejected \<lparr>err_message = asc ''Network Error'', err_response = None, err_request = True\<rparr>"
    by (simp add: offline_def)
  have m: "fallback_languages ! 0 \<in> set fallback_languages"
    by (simp add: fallback_languages_def)
  have h: "va_supportedLanguages (va_initial\<lparr>va_supportedLanguages := JArr [entry]\<rparr>) = JArr [entry] \<and>
      \<not> list_ex nullish [entry] \<and>
      \<not> va_loadingLanguages (va_initial\<lparr>va_supportedLanguages := JArr [entry]\<rparr>)"
    by (simp add: va_initial_def entry_def lang_entry_def nullish_def)
  note t = selector_shows_display_field [where net = offline and st = va_initial
      and e = "\<lparr>err_message = asc ''Network Error'', err_response = None, err_request = True\<rparr>"]
  note u = selector_shows_display_field [where ls = "[entry]"
      and st = "va_initial\<lparr>va_supportedLanguages := JArr [entry]\<rparr>"]
  have 1: "output_language_options (fst (loadLanguages offline va_initial)) =
     Inr (map (\<lambda>i. lang_option (fallback_languages ! i)) [0, 1, 2, 3, 5, 6, 7, 8, 9, 4])"
    using t r by blast
  have 2: "js_prop (fallback_languages ! 0) (asc ''display'') =
      flag_space_native (fallback_languages ! 0)"
    using t m by blast
  have "output_language_options (va_initial\<lparr>va_supportedLanguages := JArr [entry]\<rparr>) =
      shown_options (va_initial\<lparr>va_supportedLanguages := JArr [entry]\<rparr>)"
    using u h by blast
  then have 3: "output_language_options (va_initial\<lparr>va_supportedLanguages := JArr [entry]\<rparr>) =
      Inr [\<lparr>opt_value = JStr (asc ''en''), opt_label = JStr (asc ''English (US)'')\<rparr>]"
    using shown_sample by (simp add: entry_def)
  show ?thesis
    using 1 2 3 by (simp add: entry_def)
qed

end
